theory Spec2Isabelle
  imports Complex_Main "HOL-Library.AList"
begin

section \<open>Documents and values\<close>

text \<open>
  The backend (\<^verbatim>\<open>main.py\<close>) moves Python dictionaries between the HTTP layer and a
  document store. A dictionary is modelled as an association list in insertion order, as
  Python keeps it: \<open>map_of\<close> is the lookup, \<open>AList.update\<close> is \<^verbatim>\<open>d[k] = v\<close>
  (in place for an existing key, appended for a new one) and \<open>AList.delete\<close> is
  \<^verbatim>\<open>d.pop(k)\<close>. The values that occur are text, floats, \<^verbatim>\<open>None\<close> and store
  identifiers; a store identifier is represented by the text \<^verbatim>\<open>str\<close> renders for it.
\<close>

datatype val = VStr string | VFloat real | VNone | VOid string

type_synonym doc = "(string \<times> val) list"

text \<open>
  Python's \<^verbatim>\<open>str\<close>. The rendering of a float is the interpreter's business and is
  taken as the parameter \<open>repr_float\<close>.
\<close>

fun py_str :: "(real \<Rightarrow> string) \<Rightarrow> val \<Rightarrow> string" where
  "py_str repr_float (VStr s) = s"
| "py_str repr_float (VFloat r) = repr_float r"
| "py_str repr_float VNone = ''None''"
| "py_str repr_float (VOid t) = t"

text \<open>\<^verbatim>\<open>d.get(k)\<close>: the value, or \<^verbatim>\<open>None\<close> for a missing key.\<close>

definition dict_get :: "doc \<Rightarrow> string \<Rightarrow> val" where
  "dict_get d k = (case map_of d k of None \<Rightarrow> VNone | Some v \<Rightarrow> v)"

text \<open>
  Truthiness of an optional dictionary, as in \<^verbatim>\<open>if not doc\<close>: \<^verbatim>\<open>None\<close> and the empty
  dictionary are falsy.
\<close>

definition truthy_doc :: "doc option \<Rightarrow> bool" where
  "truthy_doc doc = (case doc of None \<Rightarrow> False | Some d \<Rightarrow> d \<noteq> [])"

section \<open>The public-view mapper\<close>

text \<open>
  \<^verbatim>\<open>
  def to_public(doc: dict):
      if not doc:
          return doc
      d = doc.copy()
      if "_id" in d:
          d["id"] = str(d.pop("_id"))
      return d
  \<close>
\<close>

definition to_public :: "(real \<Rightarrow> string) \<Rightarrow> doc option \<Rightarrow> doc option" where
  "to_public repr_float doc =
     (if \<not> truthy_doc doc then doc
      else case doc of
        None \<Rightarrow> None
      | Some d \<Rightarrow>
          (case map_of d ''_id'' of
             None \<Rightarrow> Some d
           | Some v \<Rightarrow>
               Some (AList.update ''id'' (VStr (py_str repr_float v))
                      (AList.delete ''_id'' d))))"

section \<open>Errors\<close>

text \<open>
  \<open>HTTPException\<close> is what the handlers raise themselves (status and detail).
  \<open>RequestValidationError\<close> is the framework's answer to a body that does not validate
  against the handler's payload class; \<open>ValidationError\<close> is the schema library's
  exception when a model is constructed inside a handler, which no handler catches.
  \<open>KeyError\<close> is a failed subscript and \<open>StoreError\<close> a failure of the store layer.
\<close>

datatype error =
    HTTPException nat string
  | RequestValidationError
  | ValidationError
  | KeyError string
  | StoreError

section \<open>The document store\<close>

text \<open>
  Modelled from the spec: the module \<^verbatim>\<open>database\<close> (the handle \<^verbatim>\<open>db\<close> and the helpers
  \<^verbatim>\<open>create_document\<close> and \<^verbatim>\<open>get_documents\<close>) and the store behind it are not among the
  sources. The spec describes a document store reachable by collection name, supporting
  find-one, find-many-with-filter and insert, each returning or accepting mappings keyed
  by field name plus a store-generated opaque identifier; results come back in insertion
  order. A collection is the list of its documents in insertion order; the store also
  carries the supply of fresh identifiers, the list of the accesses issued so far, and
  its pattern engine. The pattern language is the store's own: the engine is the field
  \<open>regex\<close>, which compiles a pattern text and an option text to a test on texts, or
  to nothing where the store refuses the pattern.
\<close>

datatype access = FindOne string | Find string | InsertOne string

type_synonym engine = "string \<Rightarrow> string \<Rightarrow> (string \<Rightarrow> bool) option"

record store =
  colls :: "string \<Rightarrow> doc list"
  next_id :: nat
  accesses :: "access list"
  regex :: engine

text \<open>
  A query is a dictionary from field names to conditions: equality with a value
  (\<^verbatim>\<open>{"email": e}\<close>) or a pattern (\<^verbatim>\<open>{"$regex": p, "$options": o}\<close>).
\<close>

datatype cond = Eq val | Regex string string

type_synonym query = "(string \<times> cond) list"

text \<open>
  Modelled from the spec: a condition is tested against the stored field. Only a text
  field can match a pattern, and it does when the test the engine compiled from the
  pattern accepts it; a field equals a value when it holds it (and a missing field counts
  as \<^verbatim>\<open>None\<close>). A query is well-formed when the engine compiles each of its
  patterns; the store refuses any other query.
\<close>

fun cond_holds :: "engine \<Rightarrow> cond \<Rightarrow> val option \<Rightarrow> bool" where
  "cond_holds rx (Eq v) fv = (fv = Some v \<or> (v = VNone \<and> fv = None))"
| "cond_holds rx (Regex p opts) fv =
     (case rx p opts of
        None \<Rightarrow> False
      | Some m \<Rightarrow> (case fv of Some (VStr t) \<Rightarrow> m t | _ \<Rightarrow> False))"

fun cond_ok :: "engine \<Rightarrow> cond \<Rightarrow> bool" where
  "cond_ok rx (Eq v) = True"
| "cond_ok rx (Regex p opts) = (rx p opts \<noteq> None)"

definition query_ok :: "engine \<Rightarrow> query \<Rightarrow> bool" where
  "query_ok rx q = list_all (\<lambda>(k, c). cond_ok rx c) q"

definition matches :: "engine \<Rightarrow> query \<Rightarrow> doc \<Rightarrow> bool" where
  "matches rx q d = list_all (\<lambda>(k, c). cond_holds rx c (map_of d k)) q"

fun hex_digits :: "nat \<Rightarrow> nat \<Rightarrow> string" where
  "hex_digits 0 n = []"
| "hex_digits (Suc w) n = hex_digits w (n div 16) @ [''0123456789abcdef'' ! (n mod 16)]"

text \<open>
  Modelled from the spec: identifiers are store-assigned, opaque and rendered as text. The
  \<open>n\<close>-th identifier of a store is rendered as 24 hexadecimal digits.
\<close>

definition oid_text :: "nat \<Rightarrow> string" where
  "oid_text n = hex_digits 24 n"

text \<open>
  Modelled from the spec: find-one returns the first matching document, if any. The
  handlers call it with equality conditions only, which are always well-formed.
\<close>

definition find_one :: "store \<Rightarrow> string \<Rightarrow> query \<Rightarrow> doc option \<times> store" where
  "find_one s c q =
     (List.find (matches (regex s) q) (colls s c),
      s\<lparr>accesses := accesses s @ [FindOne c]\<rparr>)"

text \<open>
  Modelled from the spec: find-many returns the matching documents in order, and fails
  on a query the store refuses.
\<close>

definition find_many :: "store \<Rightarrow> string \<Rightarrow> query \<Rightarrow> (error + doc list) \<times> store" where
  "find_many s c q =
     (if query_ok (regex s) q then Inr (filter (matches (regex s) q) (colls s c))
      else Inl StoreError,
      s\<lparr>accesses := accesses s @ [Find c]\<rparr>)"

text \<open>
  Modelled from the spec: insert stores the document under a fresh identifier, at the end
  of the collection, and returns the identifier.
\<close>

definition insert_one :: "store \<Rightarrow> string \<Rightarrow> doc \<Rightarrow> string \<times> store" where
  "insert_one s c d =
     (let oid = oid_text (next_id s)
      in (oid, s\<lparr>colls := (colls s)(c := colls s c @ [(''_id'', VOid oid) # d]),
                 next_id := Suc (next_id s),
                 accesses := accesses s @ [InsertOne c]\<rparr>))"

section \<open>The store handle\<close>

text \<open>
  The handle \<^verbatim>\<open>db\<close> is \<^verbatim>\<open>None\<close> when no store is configured; the handlers test it with
  \<^verbatim>\<open>if db\<close>, and a present handle is taken to be truthy.

  Modelled from the spec: \<^verbatim>\<open>create_document\<close> persists the dumped model in the named
  collection and returns the generated identifier as text; \<^verbatim>\<open>get_documents\<close> returns
  the documents of the collection that satisfy the filter, and fails where the store
  refuses the filter. Without a store both fail.
\<close>

definition create_document ::
  "store option \<Rightarrow> string \<Rightarrow> doc \<Rightarrow> (error + string) \<times> store option" where
  "create_document db c d =
     (case db of
        None \<Rightarrow> (Inl StoreError, None)
      | Some s \<Rightarrow> (let (oid, s') = insert_one s c d in (Inr oid, Some s')))"

definition get_documents ::
  "store option \<Rightarrow> string \<Rightarrow> query \<Rightarrow> (error + doc list) \<times> store option" where
  "get_documents db c q =
     (case db of
        None \<Rightarrow> (Inl StoreError, None)
      | Some s \<Rightarrow> (let (r, s') = find_many s c q in (r, Some s')))"

text \<open>
  The lookup the handlers share: \<^verbatim>\<open>db[c].find_one(q) if db else None\<close>.
\<close>

definition find_one_if_db ::
  "store option \<Rightarrow> string \<Rightarrow> query \<Rightarrow> doc option \<times> store option" where
  "find_one_if_db db c q =
     (case db of
        None \<Rightarrow> (None, None)
      | Some s \<Rightarrow> (let (r, s') = find_one s c q in (r, Some s')))"

section \<open>Schemas and payloads\<close>

text \<open>
  The classes of \<^verbatim>\<open>schemas.py\<close> and the payload classes of \<^verbatim>\<open>main.py\<close>. Constructing
  one validates its fields: \<^verbatim>\<open>str\<close> fields accept any text, \<^verbatim>\<open>EmailStr\<close> fields are
  checked and normalised by the email validator (the parameter \<open>EmailStr\<close>, which
  returns the normalised address or nothing), and \<^verbatim>\<open>Listing.price\<close> carries the
  bound \<^verbatim>\<open>ge=0\<close>, which \<^verbatim>\<open>ListingCreate.price\<close> does not. The arguments are taken to
  have the declared types already.
\<close>

record User =
  name :: string
  email :: string
  password_hash :: string

record RegisterPayload =
  name :: string
  email :: string
  password_hash :: string

record LoginPayload =
  email :: string
  password_hash :: string

record ListingCreate =
  title :: string
  author :: string
  isbn :: "string option"
  price :: real
  condition :: string
  cover :: "string option"
  description :: "string option"
  seller_email :: string

record Listing =
  title :: string
  author :: string
  isbn :: "string option"
  price :: real
  condition :: string
  cover :: "string option"
  description :: "string option"
  seller_email :: string
  status :: string

definition User_init ::
  "(string \<Rightarrow> string option) \<Rightarrow> string \<Rightarrow> string \<Rightarrow> string \<Rightarrow> error + User" where
  "User_init EmailStr n e h =
     (case EmailStr e of
        None \<Rightarrow> Inl ValidationError
      | Some e' \<Rightarrow> Inr \<lparr>User.name = n, email = e', password_hash = h\<rparr>)"


definition ListingCreate_init ::
  "(string \<Rightarrow> string option) \<Rightarrow> string \<Rightarrow> string \<Rightarrow> string option \<Rightarrow> real \<Rightarrow> string \<Rightarrow>
     string option \<Rightarrow> string option \<Rightarrow> string \<Rightarrow> error + ListingCreate" where
  "ListingCreate_init EmailStr t a i p c cv ds se =
     (case EmailStr se of
        None \<Rightarrow> Inl ValidationError
      | Some se' \<Rightarrow>
          Inr \<lparr>ListingCreate.title = t, author = a, isbn = i, price = p, condition = c,
               cover = cv, description = ds, seller_email = se'\<rparr>)"

text \<open>\<^verbatim>\<open>Listing(**payload.model_dump())\<close>; \<^verbatim>\<open>status\<close> takes its default.\<close>

definition Listing_init :: "(string \<Rightarrow> string option) \<Rightarrow> ListingCreate \<Rightarrow> error + Listing" where
  "Listing_init EmailStr p =
     (if \<not> 0 \<le> ListingCreate.price p then Inl ValidationError
      else case EmailStr (ListingCreate.seller_email p) of
        None \<Rightarrow> Inl ValidationError
      | Some se' \<Rightarrow>
          Inr \<lparr>Listing.title = ListingCreate.title p, author = ListingCreate.author p,
               isbn = ListingCreate.isbn p, price = ListingCreate.price p,
               condition = ListingCreate.condition p, cover = ListingCreate.cover p,
               description = ListingCreate.description p, seller_email = se',
               status = ''active''\<rparr>)"

text \<open>\<^verbatim>\<open>model_dump()\<close>: the fields in declaration order, an absent optional as \<^verbatim>\<open>None\<close>.\<close>

definition opt_val :: "string option \<Rightarrow> val" where
  "opt_val x = (case x of None \<Rightarrow> VNone | Some s \<Rightarrow> VStr s)"

definition User_dump :: "User \<Rightarrow> doc" where
  "User_dump u =
     [(''name'', VStr (User.name u)), (''email'', VStr (User.email u)),
      (''password_hash'', VStr (User.password_hash u))]"

definition Listing_dump :: "Listing \<Rightarrow> doc" where
  "Listing_dump l =
     [(''title'', VStr (Listing.title l)), (''author'', VStr (Listing.author l)),
      (''isbn'', opt_val (Listing.isbn l)), (''price'', VFloat (Listing.price l)),
      (''condition'', VStr (Listing.condition l)), (''cover'', opt_val (Listing.cover l)),
      (''description'', opt_val (Listing.description l)),
      (''seller_email'', VStr (Listing.seller_email l)),
      (''status'', VStr (Listing.status l))]"

section \<open>Request handlers\<close>

text \<open>
  Every handler takes the store handle and returns its response or error together with
  the handle afterwards.
  \<^verbatim>\<open>
  def register(payload: RegisterPayload):
      exists = db["user"].find_one({"email": payload.email}) if db else None
      if exists:
          raise HTTPException(status_code=400, detail="Email already registered")
      uid = create_document("user", User(name=payload.name, email=payload.email,
                                         password_hash=payload.password_hash))
      return {"id": uid, "name": payload.name, "email": payload.email}
  \<close>
\<close>

definition register ::
  "(string \<Rightarrow> string option) \<Rightarrow> store option \<Rightarrow> RegisterPayload \<Rightarrow> (error + doc) \<times> store option" where
  "register EmailStr db payload =
     (let (exists, db1) =
            find_one_if_db db ''user'' [(''email'', Eq (VStr (RegisterPayload.email payload)))]
      in if truthy_doc exists
         then (Inl (HTTPException 400 ''Email already registered''), db1)
         else
           (case User_init EmailStr (RegisterPayload.name payload)
                   (RegisterPayload.email payload) (RegisterPayload.password_hash payload) of
              Inl e \<Rightarrow> (Inl e, db1)
            | Inr u \<Rightarrow>
                (case create_document db1 ''user'' (User_dump u) of
                   (Inl e, db2) \<Rightarrow> (Inl e, db2)
                 | (Inr uid, db2) \<Rightarrow>
                     (Inr [(''id'', VStr uid),
                           (''name'', VStr (RegisterPayload.name payload)),
                           (''email'', VStr (RegisterPayload.email payload))], db2))))"

text \<open>
  \<^verbatim>\<open>
  def login(payload: LoginPayload):
      user = db["user"].find_one({"email": payload.email}) if db else None
      if not user or user.get("password_hash") != payload.password_hash:
          raise HTTPException(status_code=401, detail="Invalid credentials")
      user_public = {"id": str(user["_id"]), "name": user.get("name"),
                     "email": user.get("email")}
      return user_public
  \<close>
\<close>

definition login ::
  "(real \<Rightarrow> string) \<Rightarrow> store option \<Rightarrow> LoginPayload \<Rightarrow> (error + doc) \<times> store option" where
  "login repr_float db payload =
     (let (user, db1) =
            find_one_if_db db ''user'' [(''email'', Eq (VStr (LoginPayload.email payload)))]
      in case user of
           None \<Rightarrow> (Inl (HTTPException 401 ''Invalid credentials''), db1)
         | Some u \<Rightarrow>
             if u = [] \<or> dict_get u ''password_hash'' \<noteq> VStr (LoginPayload.password_hash payload)
             then (Inl (HTTPException 401 ''Invalid credentials''), db1)
             else
               (case map_of u ''_id'' of
                  None \<Rightarrow> (Inl (KeyError ''_id''), db1)
                | Some i \<Rightarrow>
                    (Inr [(''id'', VStr (py_str repr_float i)),
                          (''name'', dict_get u ''name''),
                          (''email'', dict_get u ''email'')], db1)))"

text \<open>
  \<^verbatim>\<open>
  def create_listing(payload: ListingCreate):
      seller = db["user"].find_one({"email": payload.seller_email}) if db else None
      if not seller:
          raise HTTPException(status_code=400, detail="Seller not found")
      listing = Listing(**payload.model_dump())
      lid = create_document("listing", listing)
      return {"id": lid}
  \<close>
\<close>

definition create_listing ::
  "(string \<Rightarrow> string option) \<Rightarrow> store option \<Rightarrow> ListingCreate \<Rightarrow> (error + doc) \<times> store option" where
  "create_listing EmailStr db payload =
     (let (seller, db1) =
            find_one_if_db db ''user''
              [(''email'', Eq (VStr (ListingCreate.seller_email payload)))]
      in if \<not> truthy_doc seller
         then (Inl (HTTPException 400 ''Seller not found''), db1)
         else
           (case Listing_init EmailStr payload of
              Inl e \<Rightarrow> (Inl e, db1)
            | Inr listing \<Rightarrow>
                (case create_document db1 ''listing'' (Listing_dump listing) of
                   (Inl e, db2) \<Rightarrow> (Inl e, db2)
                 | (Inr lid, db2) \<Rightarrow> (Inr [(''id'', VStr lid)], db2))))"


definition regex_clause :: "string \<Rightarrow> string option \<Rightarrow> query" where
  "regex_clause k x =
     (case x of
        None \<Rightarrow> []
      | Some s \<Rightarrow> if s \<noteq> [] then [(k, Regex s ''i'')] else [])"

definition filter_q :: "string option \<Rightarrow> string option \<Rightarrow> string option \<Rightarrow> query" where
  "filter_q title_p author_p isbn_p =
     regex_clause ''title'' title_p @ regex_clause ''author'' author_p
       @ regex_clause ''isbn'' isbn_p"

definition list_listings ::
  "(real \<Rightarrow> string) \<Rightarrow> store option \<Rightarrow> string option \<Rightarrow> string option \<Rightarrow> string option \<Rightarrow>
     (error + doc option list) \<times> store option" where
  "list_listings repr_float db title_p author_p isbn_p =
     (case get_documents db ''listing'' (filter_q title_p author_p isbn_p) of
        (Inl e, db1) \<Rightarrow> (Inl e, db1)
      | (Inr docs, db1) \<Rightarrow> (Inr (map (\<lambda>d. to_public repr_float (Some d)) docs), db1))"

text \<open>
  \<^verbatim>\<open>
  def get_listing(listing_id: str):
      try:
          doc = db["listing"].find_one({"_id": ObjectId(listing_id)})
      except Exception:
          raise HTTPException(status_code=400, detail="Invalid ID")
      if not doc:
          raise HTTPException(status_code=404, detail="Not found")
      return to_public(doc)
  \<close>
  The parser of identifiers is the parameter \<open>ObjectId\<close>: it returns the identifier a
  text denotes, or nothing where the library raises. Subscripting an absent handle raises
  inside the \<^verbatim>\<open>try\<close> as well.
\<close>

definition get_listing ::
  "(string \<Rightarrow> string option) \<Rightarrow> (real \<Rightarrow> string) \<Rightarrow> store option \<Rightarrow> string \<Rightarrow>
     (error + doc option) \<times> store option" where
  "get_listing ObjectId repr_float db listing_id =
     (case db of
        None \<Rightarrow> (Inl (HTTPException 400 ''Invalid ID''), db)
      | Some s \<Rightarrow>
          (case ObjectId listing_id of
             None \<Rightarrow> (Inl (HTTPException 400 ''Invalid ID''), db)
           | Some oid \<Rightarrow>
               (let (doc, s') = find_one s ''listing'' [(''_id'', Eq (VOid oid))]
                in if \<not> truthy_doc doc
                   then (Inl (HTTPException 404 ''Not found''), Some s')
                   else (Inr (to_public repr_float doc), Some s'))))"

text \<open>
  The route \<^verbatim>\<open>POST /api/listings\<close>: the framework constructs the payload from the
  request body and answers with its own validation error when that fails; only then is
  the handler called.
\<close>

definition post_listings ::
  "(string \<Rightarrow> string option) \<Rightarrow> store option \<Rightarrow> string \<Rightarrow> string \<Rightarrow> string option \<Rightarrow> real \<Rightarrow>
     string \<Rightarrow> string option \<Rightarrow> string option \<Rightarrow> string \<Rightarrow> (error + doc) \<times> store option" where
  "post_listings EmailStr db t a i p c cv ds se =
     (case ListingCreate_init EmailStr t a i p c cv ds se of
        Inl e \<Rightarrow> (Inl RequestValidationError, db)
      | Inr payload \<Rightarrow> create_listing EmailStr db payload)"

text \<open>
  Instances of the library parameters for running the model on concrete inputs: an email
  check that accepts a text with exactly one \<^verbatim>\<open>@\<close>, a non-empty local part and a dot
  inside the domain, and leaves it as it is; an identifier parser that accepts 24
  lower-case hexadecimal digits; a float rendering that is never consulted.
\<close>

definition EmailStr_simple :: "string \<Rightarrow> string option" where
  "EmailStr_simple e =
     (let local = takeWhile (\<lambda>c. c \<noteq> CHR ''@'') e;
          domain = drop (Suc (length local)) e
      in if local \<noteq> [] \<and> length local < length e \<and> CHR ''@'' \<notin> set domain
            \<and> CHR ''.'' \<in> set (butlast (drop 1 domain))
         then Some e else None)"

definition ObjectId_hex :: "string \<Rightarrow> string option" where
  "ObjectId_hex t =
     (if length t = 24 \<and> list_all (\<lambda>c. c \<in> set ''0123456789abcdef'') t then Some t else None)"

definition repr_float_none :: "real \<Rightarrow> string" where
  "repr_float_none r = []"

text \<open>
  A sample pattern engine, for stores in concrete runs: it refuses every pattern that
  holds a metacharacter of the usual pattern languages and searches any other pattern as
  a contiguous piece of the text, in lower case on both sides when the option text holds
  \<^verbatim>\<open>i\<close>.
\<close>

definition lower_char :: "char \<Rightarrow> char" where
  "lower_char c =
     (let n = (of_char c :: nat) in if 65 \<le> n \<and> n \<le> 90 then char_of (n + 32) else c)"

fun contains :: "string \<Rightarrow> string \<Rightarrow> bool" where
  "contains p [] = (p = [])"
| "contains p (c # cs) = (take (length p) (c # cs) = p \<or> contains p cs)"

definition regex_meta :: string where
  "regex_meta = ''.^$*+?()[]{}|'' @ [CHR 0x5C]"

definition literal_engine :: engine where
  "literal_engine p opts =
     (if list_ex (\<lambda>c. c \<in> set regex_meta) p then None
      else Some (\<lambda>t. if CHR ''i'' \<in> set opts
                       then contains (map lower_char p) (map lower_char t)
                       else contains p t))"

text \<open>A store that has just been set up: no documents, no access yet.\<close>

definition empty_store :: store where
  "empty_store = \<lparr>colls = (\<lambda>c. []), next_id = 0, accesses = [], regex = literal_engine\<rparr>"

text \<open>Sample data: one registered user and one listing of hers.\<close>

definition sample_user :: doc where
  "sample_user =
     [(''_id'', VOid ''000000000000000000000000''), (''name'', VStr ''Ann''),
      (''email'', VStr ''ann@books.org''), (''password_hash'', VStr ''5e884898'')]"

definition sample_listing :: doc where
  "sample_listing =
     [(''_id'', VOid ''000000000000000000000001''), (''title'', VStr ''Dune''),
      (''author'', VStr ''Frank Herbert''), (''isbn'', VNone), (''price'', VFloat 12),
      (''condition'', VStr ''Good''), (''cover'', VNone), (''description'', VNone),
      (''seller_email'', VStr ''ann@books.org''), (''status'', VStr ''active'')]"

definition sample_store :: store where
  "sample_store =
     \<lparr>colls = (\<lambda>c. if c = ''user'' then [sample_user]
                    else if c = ''listing'' then [sample_listing] else []),
      next_id = 2, accesses = [], regex = literal_engine\<rparr>"



definition sample_payload :: "real \<Rightarrow> ListingCreate" where
  "sample_payload p =
     \<lparr>ListingCreate.title = ''Emma'', author = ''Jane Austen'', isbn = None, price = p,
      condition = ''New'', cover = None, description = None,
      seller_email = ''ann@books.org''\<rparr>"

text \<open>
  The document the store holds for a listing created from the payload \<open>p\<close>, under the
  identifier \<open>oid\<close> and with the seller's address as the email check returned it: the
  identifier followed by the dump of the \<^verbatim>\<open>Listing\<close>.
\<close>

definition stored_listing :: "string \<Rightarrow> ListingCreate \<Rightarrow> string \<Rightarrow> doc" where
  "stored_listing oid p se =
     [(''_id'', VOid oid), (''title'', VStr (ListingCreate.title p)),
      (''author'', VStr (ListingCreate.author p)), (''isbn'', opt_val (ListingCreate.isbn p)),
      (''price'', VFloat (ListingCreate.price p)),
      (''condition'', VStr (ListingCreate.condition p)),
      (''cover'', opt_val (ListingCreate.cover p)),
      (''description'', opt_val (ListingCreate.description p)),
      (''seller_email'', VStr se), (''status'', VStr ''active'')]"

section \<open>The listing search as the specification words it\<close>



section \<open>The public-view mapper on a heap of dictionaries\<close>

text \<open>
  To speak about mutation, dictionaries are objects in a heap: the heap is the list of the
  dictionaries allocated so far and a reference is a position in it. \<^verbatim>\<open>doc.copy()\<close>
  allocates a new object with the same items; \<^verbatim>\<open>d.pop("_id")\<close> and
  \<^verbatim>\<open>d["id"] = ...\<close> update the object \<^verbatim>\<open>d\<close> refers to, in place. The mapper returns
  a reference (or \<^verbatim>\<open>None\<close>) and the heap afterwards.
\<close>

type_synonym heap = "doc list"

definition to_public_ref ::
  "(real \<Rightarrow> string) \<Rightarrow> heap \<Rightarrow> nat option \<Rightarrow> nat option \<times> heap" where
  "to_public_ref repr_float h doc =
     (case doc of
        None \<Rightarrow> (None, h)
      | Some a \<Rightarrow>
          if h ! a = [] then (Some a, h)
          else
            (let d = length h;
                 h1 = h @ [h ! a]
             in case map_of (h1 ! d) ''_id'' of
                  None \<Rightarrow> (Some d, h1)
                | Some v \<Rightarrow>
                    (let h2 = h1[d := AList.delete ''_id'' (h1 ! d)];
                         h3 = h2[d := AList.update ''id'' (VStr (py_str repr_float v)) (h2 ! d)]
                     in (Some d, h3))))"

section \<open>Properties of the public-view mapper\<close>

lemma to_public_None: "to_public rf None = None"
  by (simp add: to_public_def truthy_doc_def)

lemma to_public_with_id:
  assumes "map_of d ''_id'' = Some v"
  shows "to_public rf (Some d) =
           Some (AList.update ''id'' (VStr (py_str rf v)) (AList.delete ''_id'' d))"
proof -
  from assms have "d \<noteq> []" by auto
  with assms show ?thesis by (simp add: to_public_def truthy_doc_def)
qed

text \<open>
  Claim C4. A non-empty stored document that holds the internal identifier under
  \<^verbatim>\<open>_id\<close> is mapped to a document without the key \<^verbatim>\<open>_id\<close>, with the key \<^verbatim>\<open>id\<close>
  holding the identifier rendered as text, and with every other key mapped to the value
  it had; the absent document is mapped to itself.
\<close>

theorem to_public_renames_id:
  assumes "map_of d ''_id'' = Some v"
  shows "\<exists>d'. to_public rf (Some d) = Some d'
           \<and> map_of d' ''_id'' = None
           \<and> map_of d' ''id'' = Some (VStr (py_str rf v))
           \<and> (\<forall>k. k \<noteq> ''_id'' \<and> k \<noteq> ''id'' \<longrightarrow> map_of d' k = map_of d k)
           \<and> to_public rf None = None"
proof -
  let ?d' = "AList.update ''id'' (VStr (py_str rf v)) (AList.delete ''_id'' d)"
  have "to_public rf (Some d) = Some ?d'"
    using assms by (rule to_public_with_id)
  moreover have "map_of ?d' ''_id'' = None"
    by (simp add: update_conv' delete_conv')
  moreover have "map_of ?d' ''id'' = Some (VStr (py_str rf v))"
    by (simp add: update_conv')
  moreover have "\<forall>k. k \<noteq> ''_id'' \<and> k \<noteq> ''id'' \<longrightarrow> map_of ?d' k = map_of d k"
    by (simp add: update_conv' delete_conv')
  ultimately show ?thesis
    using to_public_None by blast
qed

theorem to_public_renames_id_witness:
  "map_of [(''_id'', VOid ''000000000000000000000001''), (''title'', VStr ''Dune'')] ''_id''
     = Some (VOid ''000000000000000000000001'')
   \<and> to_public repr_float_none
        (Some [(''_id'', VOid ''000000000000000000000001''), (''title'', VStr ''Dune'')])
     = Some [(''title'', VStr ''Dune''), (''id'', VStr ''000000000000000000000001'')]
   \<and> to_public repr_float_none None = None"
  using to_public_renames_id [of "[(''_id'', VOid ''000000000000000000000001''), (''title'', VStr ''Dune'')]"
      "VOid ''000000000000000000000001''" repr_float_none]
  by (simp add: to_public_def truthy_doc_def)

text \<open>The heap version returns a reference to what the mapper on values returns.\<close>

lemma to_public_ref_value:
  assumes "a < length h"
  shows "case to_public_ref rf h (Some a) of
           (r, h') \<Rightarrow> map_option (\<lambda>b. h' ! b) r = to_public rf (Some (h ! a))"
  using assms
  by (auto simp: to_public_ref_def to_public_def truthy_doc_def Let_def nth_append
        split: option.splits)

text \<open>
  Claim C10. \<^verbatim>\<open>to_public\<close> does not mutate its argument: after the call every
  dictionary that existed before holds the items it held, the argument included (the
  rename is done on a fresh copy), so the caller's document still has its \<^verbatim>\<open>_id\<close>.
\<close>

theorem to_public_ref_frame:
  assumes "a < length h"
  shows "\<exists>r h'. to_public_ref rf h (Some a) = (r, h')
           \<and> length h \<le> length h'
           \<and> (\<forall>b < length h. h' ! b = h ! b)
           \<and> map_of (h' ! a) ''_id'' = map_of (h ! a) ''_id''
           \<and> to_public_ref rf h None = (None, h)"
  using assms
  by (auto simp: to_public_ref_def Let_def nth_append split: option.splits)

theorem to_public_ref_frame_witness:
  "(0::nat) < length [sample_listing]
   \<and> to_public_ref repr_float_none [sample_listing] (Some 0)
       = (Some 1, [sample_listing,
            [(''title'', VStr ''Dune''),
      (''author'', VStr ''Frank Herbert''), (''isbn'', VNone), (''price'', VFloat 12),
      (''condition'', VStr ''Good''), (''cover'', VNone), (''description'', VNone),
      (''seller_email'', VStr ''ann@books.org''), (''status'', VStr ''active''),
      (''id'', VStr ''000000000000000000000001'')]])
   \<and> map_of ([sample_listing,
            [(''title'', VStr ''Dune''),
      (''author'', VStr ''Frank Herbert''), (''isbn'', VNone), (''price'', VFloat 12),
      (''condition'', VStr ''Good''), (''cover'', VNone), (''description'', VNone),
      (''seller_email'', VStr ''ann@books.org''), (''status'', VStr ''active''),
      (''id'', VStr ''000000000000000000000001'')]] ! 0) ''_id''
       = Some (VOid ''000000000000000000000001'')"
proof -
  have "(0::nat) < length [sample_listing]" by simp
  from to_public_ref_frame [OF this, of repr_float_none] show ?thesis
    by (simp add: to_public_ref_def sample_listing_def Let_def)
qed

section \<open>Lookups in the store\<close>

lemma find_one_if_db_Some:
  "find_one_if_db (Some s) c q =
     (List.find (matches (regex s) q) (colls s c),
      Some (s\<lparr>accesses := accesses s @ [FindOne c]\<rparr>))"
  by (simp add: find_one_if_db_def find_one_def)

lemma matches_eq_str:
  "matches rx [(k, Eq (VStr e))] = (\<lambda>d. map_of d k = Some (VStr e))"
  by (rule ext) (simp add: matches_def)

lemma matches_eq_oid:
  "matches rx [(k, Eq (VOid e))] = (\<lambda>d. map_of d k = Some (VOid e))"
  by (rule ext) (simp add: matches_def)

lemma find_has_key:
  assumes "List.find (\<lambda>d. map_of d k = Some v) ds = Some d"
  shows "map_of d k = Some v" and "d \<noteq> []" and "d \<in> set ds"
proof -
  from assms show a: "map_of d k = Some v" and "d \<in> set ds"
    by (auto simp: find_Some_iff)
  from a show "d \<noteq> []" by auto
qed

lemma hex_digits_length: "length (hex_digits w n) = w"
  by (induction w arbitrary: n) simp_all

lemma oid_text_length: "length (oid_text n) = 24"
  by (simp add: oid_text_def hex_digits_length)

lemma oid_text_nonempty: "oid_text n \<noteq> []"
  using oid_text_length [of n] by auto

lemma create_document_Some:
  "create_document (Some s) c d =
     (Inr (oid_text (next_id s)),
      Some (s\<lparr>colls := (colls s)(c := colls s c @ [(''_id'', VOid (oid_text (next_id s))) # d]),
              next_id := Suc (next_id s),
              accesses := accesses s @ [InsertOne c]\<rparr>))"
  by (simp add: create_document_def insert_one_def Let_def)

section \<open>Fetching one listing\<close>

lemma get_listing_Some:
  "get_listing ObjectId rf (Some s) lid =
     (case ObjectId lid of
        None \<Rightarrow> (Inl (HTTPException 400 ''Invalid ID''), Some s)
      | Some oid \<Rightarrow>
          (case List.find (\<lambda>d. map_of d ''_id'' = Some (VOid oid)) (colls s ''listing'') of
             None \<Rightarrow> (Inl (HTTPException 404 ''Not found''),
                       Some (s\<lparr>accesses := accesses s @ [FindOne ''listing'']\<rparr>))
           | Some d \<Rightarrow> (Inr (to_public rf (Some d)),
                        Some (s\<lparr>accesses := accesses s @ [FindOne ''listing'']\<rparr>))))"
  by (auto simp: get_listing_def find_one_def matches_eq_oid truthy_doc_def
        split: option.splits dest: find_has_key(2))

lemma get_listing_None:
  "get_listing ObjectId rf None lid = (Inl (HTTPException 400 ''Invalid ID''), None)"
  by (simp add: get_listing_def)

text \<open>
  With a store in place the handler answers 400 only for a text that does not parse,
  404 when the text parses and no listing has that identifier, and the public shape of
  the document found otherwise.
\<close>

lemma get_listing_with_store:
  "(fst (get_listing ObjectId rf (Some s) lid) = Inl (HTTPException 400 ''Invalid ID'')
      \<longleftrightarrow> ObjectId lid = None)
   \<and> (\<forall>oid. ObjectId lid = Some oid
          \<and> (\<forall>d\<in>set (colls s ''listing''). map_of d ''_id'' \<noteq> Some (VOid oid))
        \<longrightarrow> fst (get_listing ObjectId rf (Some s) lid) = Inl (HTTPException 404 ''Not found''))
   \<and> (\<forall>oid d. ObjectId lid = Some oid
          \<and> List.find (\<lambda>d. map_of d ''_id'' = Some (VOid oid)) (colls s ''listing'') = Some d
        \<longrightarrow> fst (get_listing ObjectId rf (Some s) lid) = Inr (to_public rf (Some d)))"
proof (intro conjI allI impI)
  show "fst (get_listing ObjectId rf (Some s) lid) = Inl (HTTPException 400 ''Invalid ID'')
      \<longleftrightarrow> ObjectId lid = None"
    by (simp add: get_listing_Some split: option.splits)
next
  fix oid
  assume "ObjectId lid = Some oid
          \<and> (\<forall>d\<in>set (colls s ''listing''). map_of d ''_id'' \<noteq> Some (VOid oid))"
  then have "ObjectId lid = Some oid"
    and "List.find (\<lambda>d. map_of d ''_id'' = Some (VOid oid)) (colls s ''listing'') = None"
    by (simp_all add: find_None_iff)
  then show "fst (get_listing ObjectId rf (Some s) lid) = Inl (HTTPException 404 ''Not found'')"
    by (simp add: get_listing_Some)
next
  fix oid d
  assume "ObjectId lid = Some oid
          \<and> List.find (\<lambda>d. map_of d ''_id'' = Some (VOid oid)) (colls s ''listing'') = Some d"
  then show "fst (get_listing ObjectId rf (Some s) lid) = Inr (to_public rf (Some d))"
    by (simp add: get_listing_Some)
qed

text \<open>
  Claim C2 at a well-formed identifier with no store configured. The lookup stands inside
  the same \<^verbatim>\<open>try\<close> as the parse, so its failure is answered as 400 (invalid
  identifier) although the text parses as an identifier.
\<close>

theorem get_listing_without_store:
  "ObjectId_hex ''000000000000000000000001'' = Some ''000000000000000000000001''
   \<and> fst (get_listing ObjectId_hex repr_float_none None ''000000000000000000000001'')
       = Inl (HTTPException 400 ''Invalid ID'')"
  by (simp add: ObjectId_hex_def get_listing_def)

section \<open>Login\<close>

text \<open>
  Claim C3. A login whose email matches no stored user and a login whose email matches a
  stored user with a different stored password hash fail alike: both raise the same
  exception (401, invalid credentials) and leave the store in the same state, so nothing
  in the outcome tells the two cases apart.
\<close>

theorem login_same_error:
  assumes none: "\<forall>u\<in>set (colls s ''user'').
                   map_of u ''email'' \<noteq> Some (VStr (LoginPayload.email p1))"
    and found: "List.find (\<lambda>u. map_of u ''email'' = Some (VStr (LoginPayload.email p2)))
                  (colls s ''user'') = Some u"
    and differs: "dict_get u ''password_hash'' \<noteq> VStr (LoginPayload.password_hash p2)"
  shows "login rf (Some s) p1 =
           (Inl (HTTPException 401 ''Invalid credentials''),
            Some (s\<lparr>accesses := accesses s @ [FindOne ''user'']\<rparr>))
         \<and> login rf (Some s) p2 = login rf (Some s) p1"
proof -
  from none have "List.find (\<lambda>u. map_of u ''email'' = Some (VStr (LoginPayload.email p1)))
                    (colls s ''user'') = None"
    by (simp add: find_None_iff)
  then have 1: "login rf (Some s) p1 =
           (Inl (HTTPException 401 ''Invalid credentials''),
            Some (s\<lparr>accesses := accesses s @ [FindOne ''user'']\<rparr>))"
    by (simp add: login_def find_one_if_db_Some matches_eq_str)
  from found differs have 2: "login rf (Some s) p2 =
           (Inl (HTTPException 401 ''Invalid credentials''),
            Some (s\<lparr>accesses := accesses s @ [FindOne ''user'']\<rparr>))"
    by (simp add: login_def find_one_if_db_Some matches_eq_str)
  from 1 2 show ?thesis by simp
qed

theorem login_same_error_witness:
  "login repr_float_none (Some sample_store)
       \<lparr>LoginPayload.email = ''bob@books.org'', password_hash = ''5e884898''\<rparr>
     = (Inl (HTTPException 401 ''Invalid credentials''),
        Some (sample_store\<lparr>accesses := [FindOne ''user'']\<rparr>))
   \<and> login repr_float_none (Some sample_store)
       \<lparr>LoginPayload.email = ''ann@books.org'', password_hash = ''wrong''\<rparr>
     = (Inl (HTTPException 401 ''Invalid credentials''),
        Some (sample_store\<lparr>accesses := [FindOne ''user'']\<rparr>))"
proof -
  have 1: "\<forall>u\<in>set (colls sample_store ''user''). map_of u ''email'' \<noteq>
            Some (VStr (LoginPayload.email
              \<lparr>LoginPayload.email = ''bob@books.org'', password_hash = ''5e884898''\<rparr>))"
    by (simp add: sample_store_def sample_user_def)
  have 2: "List.find (\<lambda>u. map_of u ''email'' = Some (VStr (LoginPayload.email
              \<lparr>LoginPayload.email = ''ann@books.org'', password_hash = ''wrong''\<rparr>)))
            (colls sample_store ''user'') = Some sample_user"
    by (simp add: sample_store_def sample_user_def)
  have 3: "dict_get sample_user ''password_hash'' \<noteq> VStr (LoginPayload.password_hash
              \<lparr>LoginPayload.email = ''ann@books.org'', password_hash = ''wrong''\<rparr>)"
    by (simp add: sample_user_def dict_get_def)
  show ?thesis
    using login_same_error [OF 1 2 3, of repr_float_none]
    by (simp add: sample_store_def)
qed

section \<open>Searching listings\<close>

text \<open>
  Claim C9. A filter parameter given as the empty text imposes no constraint: the call
  returns what the same call returns with that parameter absent.
\<close>

theorem list_listings_empty_is_absent:
  "list_listings rf db (Some []) a i = list_listings rf db None a i
   \<and> list_listings rf db t (Some []) i = list_listings rf db t None i
   \<and> list_listings rf db t a (Some []) = list_listings rf db t a None"
  by (simp add: list_listings_def filter_q_def regex_clause_def)

lemma take_eq_iff_prefix: "take (length p) t = p \<longleftrightarrow> (\<exists>v. t = p @ v)"
proof
  assume "take (length p) t = p"
  then have "t = p @ drop (length p) t"
    by (metis append_take_drop_id)
  then show "\<exists>v. t = p @ v" ..
next
  assume "\<exists>v. t = p @ v"
  then show "take (length p) t = p" by auto
qed

text \<open>\<open>contains p t\<close> says that \<open>p\<close> occurs in \<open>t\<close> as a contiguous piece.\<close>

lemma contains_iff: "contains p t \<longleftrightarrow> (\<exists>u v. t = u @ p @ v)"
proof (induction t)
  case Nil
  show ?case by auto
next
  case (Cons c cs)
  show ?case
  proof
    assume "contains p (c # cs)"
    then consider "take (length p) (c # cs) = p" | "contains p cs" by auto
    then show "\<exists>u v. c # cs = u @ p @ v"
    proof cases
      case 1
      then obtain v where "c # cs = p @ v" unfolding take_eq_iff_prefix ..
      then have "c # cs = [] @ p @ v" by simp
      then show ?thesis by blast
    next
      case 2
      with Cons.IH obtain u v where "cs = u @ p @ v" by blast
      then have "c # cs = (c # u) @ p @ v" by simp
      then show ?thesis by blast
    qed
  next
    assume "\<exists>u v. c # cs = u @ p @ v"
    then obtain u v where uv: "c # cs = u @ p @ v" by blast
    show "contains p (c # cs)"
    proof (cases u)
      case Nil
      with uv have "take (length p) (c # cs) = p"
        unfolding take_eq_iff_prefix by auto
      then show ?thesis by simp
    next
      case (Cons x u')
      with uv have "cs = u' @ p @ v" by simp
      with Cons.IH have "contains p cs" by blast
      then show ?thesis by simp
    qed
  qed
qed



text \<open>
  On a pattern without metacharacters and under the option \<^verbatim>\<open>i\<close>, the sample engine is
  the case-insensitive substring search.
\<close>

lemma literal_engine_substring:
  assumes "\<not> list_ex (\<lambda>c. c \<in> set regex_meta) p"
  shows "\<exists>m. literal_engine p ''i'' = Some m
           \<and> (\<forall>t. m t \<longleftrightarrow> (\<exists>u v. map lower_char t = u @ map lower_char p @ v))"
  using assms by (simp add: literal_engine_def contains_iff)










section \<open>Registration\<close>

lemma find_one_if_db_found:
  assumes "\<exists>u\<in>set ds. map_of u k = Some v"
  shows "\<exists>u. List.find (\<lambda>u. map_of u k = Some v) ds = Some u \<and> u \<noteq> []"
proof (cases "List.find (\<lambda>u. map_of u k = Some v) ds")
  case None
  with assms show ?thesis by (auto simp: find_None_iff)
next
  case (Some u)
  then show ?thesis by (auto dest: find_has_key(2))
qed

lemma register_duplicate:
  assumes "\<exists>u\<in>set (colls s ''user''). map_of u ''email'' = Some (VStr (RegisterPayload.email p))"
  shows "register EmailStr (Some s) p =
           (Inl (HTTPException 400 ''Email already registered''),
            Some (s\<lparr>accesses := accesses s @ [FindOne ''user'']\<rparr>))"
proof -
  from assms obtain u where
    "List.find (\<lambda>u. map_of u ''email'' = Some (VStr (RegisterPayload.email p))) (colls s ''user'') = Some u"
    by (cases "List.find (\<lambda>u. map_of u ''email'' = Some (VStr (RegisterPayload.email p))) (colls s ''user'')")
       (auto simp: find_None_iff)
  moreover from this have "u \<noteq> []" by (rule find_has_key(2))
  ultimately show ?thesis
    by (simp add: register_def find_one_if_db_Some matches_eq_str truthy_doc_def)
qed

lemma register_fresh:
  assumes "\<forall>u\<in>set (colls s ''user''). map_of u ''email'' \<noteq> Some (VStr (RegisterPayload.email p))"
    and "EmailStr (RegisterPayload.email p) = Some e'"
  shows "register EmailStr (Some s) p =
           (Inr [(''id'', VStr (oid_text (next_id s))),
                 (''name'', VStr (RegisterPayload.name p)),
                 (''email'', VStr (RegisterPayload.email p))],
            Some (s\<lparr>colls := (colls s)(''user'' := colls s ''user'' @
                       [[(''_id'', VOid (oid_text (next_id s))),
                         (''name'', VStr (RegisterPayload.name p)),
                         (''email'', VStr e'),
                         (''password_hash'', VStr (RegisterPayload.password_hash p))]]),
                    next_id := Suc (next_id s),
                    accesses := accesses s @ [FindOne ''user'', InsertOne ''user'']\<rparr>))"
proof -
  from assms(1) have "List.find (\<lambda>u. map_of u ''email'' = Some (VStr (RegisterPayload.email p)))
                    (colls s ''user'') = None"
    by (simp add: find_None_iff)
  with assms(2) show ?thesis
    by (simp add: register_def find_one_if_db_Some matches_eq_str truthy_doc_def
          User_init_def User_dump_def create_document_Some)
qed

text \<open>
  Claim C6. With the store in place: when a user with the payload's email is stored,
  \<^verbatim>\<open>register\<close> raises 400 (email already registered) and the collections are as
  before; when none is stored, and the payload's email passes the email check as a
  validated payload's does, it appends one user document and returns \<^verbatim>\<open>id\<close>,
  \<^verbatim>\<open>name\<close> and \<^verbatim>\<open>email\<close> only, the \<^verbatim>\<open>id\<close> being a non-empty text.
\<close>

theorem register_spec:
  "((\<exists>u\<in>set (colls s ''user''). map_of u ''email'' = Some (VStr (RegisterPayload.email p)))
      \<longrightarrow> register EmailStr (Some s) p =
            (Inl (HTTPException 400 ''Email already registered''),
             Some (s\<lparr>accesses := accesses s @ [FindOne ''user'']\<rparr>)))
   \<and> ((\<forall>u\<in>set (colls s ''user''). map_of u ''email'' \<noteq> Some (VStr (RegisterPayload.email p)))
        \<and> EmailStr (RegisterPayload.email p) = Some e'
      \<longrightarrow> register EmailStr (Some s) p =
            (Inr [(''id'', VStr (oid_text (next_id s))),
                  (''name'', VStr (RegisterPayload.name p)),
                  (''email'', VStr (RegisterPayload.email p))],
             Some (s\<lparr>colls := (colls s)(''user'' := colls s ''user'' @
                        [[(''_id'', VOid (oid_text (next_id s))),
                          (''name'', VStr (RegisterPayload.name p)),
                          (''email'', VStr e'),
                          (''password_hash'', VStr (RegisterPayload.password_hash p))]]),
                     next_id := Suc (next_id s),
                     accesses := accesses s @ [FindOne ''user'', InsertOne ''user'']\<rparr>))
          \<and> oid_text (next_id s) \<noteq> [])"
  using register_duplicate [of s p EmailStr] register_fresh [of s p EmailStr e']
    oid_text_nonempty [of "next_id s"]
  by blast

theorem register_spec_witness:
  "register EmailStr_simple (Some sample_store)
      \<lparr>RegisterPayload.name = ''Eve'', email = ''ann@books.org'', password_hash = ''1f3870be''\<rparr>
     = (Inl (HTTPException 400 ''Email already registered''),
        Some (sample_store\<lparr>accesses := [FindOne ''user'']\<rparr>))
   \<and> register EmailStr_simple (Some sample_store)
      \<lparr>RegisterPayload.name = ''Bob'', email = ''bob@books.org'', password_hash = ''1f3870be''\<rparr>
     = (Inr [(''id'', VStr ''000000000000000000000002''), (''name'', VStr ''Bob''),
             (''email'', VStr ''bob@books.org'')],
        Some (sample_store\<lparr>colls := (colls sample_store)(''user'' := [sample_user,
                  [(''_id'', VOid ''000000000000000000000002''), (''name'', VStr ''Bob''),
                   (''email'', VStr ''bob@books.org''), (''password_hash'', VStr ''1f3870be'')]]),
                next_id := 3,
                accesses := [FindOne ''user'', InsertOne ''user'']\<rparr>))"
proof -
  have dup: "\<exists>u\<in>set (colls sample_store ''user''). map_of u ''email'' =
      Some (VStr (RegisterPayload.email
        \<lparr>RegisterPayload.name = ''Eve'', email = ''ann@books.org'', password_hash = ''1f3870be''\<rparr>))"
    by (simp add: sample_store_def sample_user_def)
  have new: "\<forall>u\<in>set (colls sample_store ''user''). map_of u ''email'' \<noteq>
      Some (VStr (RegisterPayload.email
        \<lparr>RegisterPayload.name = ''Bob'', email = ''bob@books.org'', password_hash = ''1f3870be''\<rparr>))"
    by (simp add: sample_store_def sample_user_def)
  have ok: "EmailStr_simple (RegisterPayload.email
        \<lparr>RegisterPayload.name = ''Bob'', email = ''bob@books.org'', password_hash = ''1f3870be''\<rparr>)
      = Some ''bob@books.org''"
    by (simp add: EmailStr_simple_def)
  have two: "oid_text 2 = ''000000000000000000000002''"
    by code_simp
  have users: "colls sample_store ''user'' = [sample_user]" and nxt: "next_id sample_store = 2"
    and acc: "accesses sample_store = []"
    by (simp_all add: sample_store_def)
  from register_spec [of sample_store
      "\<lparr>RegisterPayload.name = ''Eve'', email = ''ann@books.org'', password_hash = ''1f3870be''\<rparr>"
      EmailStr_simple] dup
  have 1: "register EmailStr_simple (Some sample_store)
      \<lparr>RegisterPayload.name = ''Eve'', email = ''ann@books.org'', password_hash = ''1f3870be''\<rparr>
     = (Inl (HTTPException 400 ''Email already registered''),
        Some (sample_store\<lparr>accesses := accesses sample_store @ [FindOne ''user'']\<rparr>))"
    by blast
  from register_spec [of sample_store
      "\<lparr>RegisterPayload.name = ''Bob'', email = ''bob@books.org'', password_hash = ''1f3870be''\<rparr>"
      EmailStr_simple "''bob@books.org''"] new ok
  have 2: "register EmailStr_simple (Some sample_store)
      \<lparr>RegisterPayload.name = ''Bob'', email = ''bob@books.org'', password_hash = ''1f3870be''\<rparr>
     = (Inr [(''id'', VStr (oid_text (next_id sample_store))),
                  (''name'', VStr (RegisterPayload.name \<lparr>RegisterPayload.name = ''Bob'', email = ''bob@books.org'', password_hash = ''1f3870be''\<rparr>)),
                  (''email'', VStr (RegisterPayload.email \<lparr>RegisterPayload.name = ''Bob'', email = ''bob@books.org'', password_hash = ''1f3870be''\<rparr>))],
             Some (sample_store\<lparr>colls := (colls sample_store)(''user'' := colls sample_store ''user'' @
                        [[(''_id'', VOid (oid_text (next_id sample_store))),
                          (''name'', VStr (RegisterPayload.name \<lparr>RegisterPayload.name = ''Bob'', email = ''bob@books.org'', password_hash = ''1f3870be''\<rparr>)),
                          (''email'', VStr ''bob@books.org''),
                          (''password_hash'', VStr (RegisterPayload.password_hash \<lparr>RegisterPayload.name = ''Bob'', email = ''bob@books.org'', password_hash = ''1f3870be''\<rparr>))]]),
                     next_id := Suc (next_id sample_store),
                     accesses := accesses sample_store @ [FindOne ''user'', InsertOne ''user'']\<rparr>))"
    by blast
  from 1 2 show ?thesis
    by (simp add: two users nxt acc)
qed

section \<open>Validation of payloads\<close>




section \<open>Creating a listing\<close>

lemma create_listing_no_seller:
  assumes "\<forall>u\<in>set (colls s ''user'').
             map_of u ''email'' \<noteq> Some (VStr (ListingCreate.seller_email p))"
  shows "create_listing EmailStr (Some s) p =
           (Inl (HTTPException 400 ''Seller not found''),
            Some (s\<lparr>accesses := accesses s @ [FindOne ''user'']\<rparr>))"
proof -
  from assms have "List.find (\<lambda>u. map_of u ''email'' = Some (VStr (ListingCreate.seller_email p)))
                    (colls s ''user'') = None"
    by (simp add: find_None_iff)
  then show ?thesis
    by (simp add: create_listing_def find_one_if_db_Some matches_eq_str truthy_doc_def)
qed

lemma create_listing_seller:
  assumes "\<exists>u\<in>set (colls s ''user'').
             map_of u ''email'' = Some (VStr (ListingCreate.seller_email p))"
  shows "create_listing EmailStr (Some s) p =
           (case Listing_init EmailStr p of
              Inl e \<Rightarrow> (Inl e, Some (s\<lparr>accesses := accesses s @ [FindOne ''user'']\<rparr>))
            | Inr l \<Rightarrow>
               (Inr [(''id'', VStr (oid_text (next_id s)))],
                Some (s\<lparr>colls := (colls s)(''listing'' := colls s ''listing'' @
                          [(''_id'', VOid (oid_text (next_id s))) # Listing_dump l]),
                        next_id := Suc (next_id s),
                        accesses := accesses s @ [FindOne ''user'', InsertOne ''listing'']\<rparr>)))"
proof -
  from find_one_if_db_found [OF assms] obtain u where
    "List.find (\<lambda>u. map_of u ''email'' = Some (VStr (ListingCreate.seller_email p)))
       (colls s ''user'') = Some u" and "u \<noteq> []"
    by blast
  then show ?thesis
    by (simp add: create_listing_def find_one_if_db_Some matches_eq_str truthy_doc_def
          create_document_Some split: sum.splits)
qed

lemma Listing_init_ok:
  assumes "0 \<le> ListingCreate.price p" and "EmailStr (ListingCreate.seller_email p) = Some se"
  shows "\<exists>l. Listing_init EmailStr p = Inr l
           \<and> (''_id'', VOid oid) # Listing_dump l = stored_listing oid p se"
  using assms by (simp add: Listing_init_def Listing_dump_def stored_listing_def)

lemma create_listing_ok:
  assumes "\<exists>u\<in>set (colls s ''user'').
             map_of u ''email'' = Some (VStr (ListingCreate.seller_email p))"
    and "0 \<le> ListingCreate.price p"
    and "EmailStr (ListingCreate.seller_email p) = Some se"
  shows "create_listing EmailStr (Some s) p =
           (Inr [(''id'', VStr (oid_text (next_id s)))],
            Some (s\<lparr>colls := (colls s)(''listing'' := colls s ''listing'' @
                      [stored_listing (oid_text (next_id s)) p se]),
                    next_id := Suc (next_id s),
                    accesses := accesses s @ [FindOne ''user'', InsertOne ''listing'']\<rparr>))"
proof -
  from Listing_init_ok [where p = p and EmailStr = EmailStr and se = se
      and oid = "oid_text (next_id s)"] assms(2,3) obtain l where
    "Listing_init EmailStr p = Inr l"
    "(''_id'', VOid (oid_text (next_id s))) # Listing_dump l
       = stored_listing (oid_text (next_id s)) p se"
    by blast
  then show ?thesis
    by (simp add: create_listing_seller [OF assms(1)])
qed

lemma create_listing_negative:
  assumes "\<exists>u\<in>set (colls s ''user'').
             map_of u ''email'' = Some (VStr (ListingCreate.seller_email p))"
    and "ListingCreate.price p < 0"
  shows "create_listing EmailStr (Some s) p =
           (Inl ValidationError, Some (s\<lparr>accesses := accesses s @ [FindOne ''user'']\<rparr>))"
  using assms(2) by (simp add: create_listing_seller [OF assms(1)] Listing_init_def)

lemma find_new_listing:
  assumes "\<forall>d\<in>set ds. map_of d ''_id'' \<noteq> Some (VOid oid)"
  shows "List.find (\<lambda>d. map_of d ''_id'' = Some (VOid oid)) (ds @ [stored_listing oid p se])
           = Some (stored_listing oid p se)"
  using assms by (induction ds) (simp_all add: stored_listing_def)

lemma to_public_stored_listing:
  "to_public rf (Some (stored_listing oid p se)) =
     Some [(''title'', VStr (ListingCreate.title p)),
      (''author'', VStr (ListingCreate.author p)), (''isbn'', opt_val (ListingCreate.isbn p)),
      (''price'', VFloat (ListingCreate.price p)),
      (''condition'', VStr (ListingCreate.condition p)),
      (''cover'', opt_val (ListingCreate.cover p)),
      (''description'', opt_val (ListingCreate.description p)),
      (''seller_email'', VStr se), (''status'', VStr ''active''), (''id'', VStr oid)]"
  by (simp add: to_public_def truthy_doc_def stored_listing_def)

lemma get_new_listing:
  assumes "\<forall>d\<in>set (colls s ''listing''). map_of d ''_id'' \<noteq> Some (VOid oid)"
    and "ObjectId oid = Some oid"
  shows "fst (get_listing ObjectId rf
            (Some (s\<lparr>colls := (colls s)(''listing'' := colls s ''listing'' @
                      [stored_listing oid p se]),
                    next_id := n, accesses := acc\<rparr>)) oid)
         = Inr (to_public rf (Some (stored_listing oid p se)))"
  using assms(2) find_new_listing [OF assms(1), of p se]
  by (simp add: get_listing_Some)

text \<open>
  Claim C7, as the code has it. With the store in place: when no stored user has the
  payload's seller email, \<^verbatim>\<open>create_listing\<close> raises 400 (seller not found) and the
  collections are as before. When one has, the price is not negative and the seller email
  passes the email check as a validated payload's does, it appends one listing document
  whose \<^verbatim>\<open>status\<close> is \<^verbatim>\<open>active\<close> and returns its identifier as \<^verbatim>\<open>id\<close>; and when
  that identifier is new to the listing collection and parses back to itself, fetching it
  with \<^verbatim>\<open>get_listing\<close> in the resulting store returns a document with the submitted
  \<^verbatim>\<open>title\<close>, \<^verbatim>\<open>author\<close> and \<^verbatim>\<open>price\<close>.
\<close>

theorem create_listing_spec:
  "((\<forall>u\<in>set (colls s ''user'').
        map_of u ''email'' \<noteq> Some (VStr (ListingCreate.seller_email p)))
      \<longrightarrow> create_listing EmailStr (Some s) p =
            (Inl (HTTPException 400 ''Seller not found''),
             Some (s\<lparr>accesses := accesses s @ [FindOne ''user'']\<rparr>)))
   \<and> ((\<exists>u\<in>set (colls s ''user'').
          map_of u ''email'' = Some (VStr (ListingCreate.seller_email p)))
        \<and> 0 \<le> ListingCreate.price p
        \<and> EmailStr (ListingCreate.seller_email p) = Some se
      \<longrightarrow> create_listing EmailStr (Some s) p =
            (Inr [(''id'', VStr (oid_text (next_id s)))],
             Some (s\<lparr>colls := (colls s)(''listing'' := colls s ''listing'' @
                       [stored_listing (oid_text (next_id s)) p se]),
                     next_id := Suc (next_id s),
                     accesses := accesses s @ [FindOne ''user'', InsertOne ''listing'']\<rparr>))
          \<and> map_of (stored_listing (oid_text (next_id s)) p se) ''status''
              = Some (VStr ''active'')
          \<and> ((\<forall>d\<in>set (colls s ''listing'').
                  map_of d ''_id'' \<noteq> Some (VOid (oid_text (next_id s))))
              \<and> ObjectId (oid_text (next_id s)) = Some (oid_text (next_id s))
            \<longrightarrow> (\<exists>d. fst (get_listing ObjectId rf (snd (create_listing EmailStr (Some s) p))
                            (oid_text (next_id s))) = Inr (Some d)
                    \<and> map_of d ''title'' = Some (VStr (ListingCreate.title p))
                    \<and> map_of d ''author'' = Some (VStr (ListingCreate.author p))
                    \<and> map_of d ''price'' = Some (VFloat (ListingCreate.price p)))))"
proof (intro conjI impI)
  assume "\<forall>u\<in>set (colls s ''user'').
        map_of u ''email'' \<noteq> Some (VStr (ListingCreate.seller_email p))"
  then show "create_listing EmailStr (Some s) p =
            (Inl (HTTPException 400 ''Seller not found''),
             Some (s\<lparr>accesses := accesses s @ [FindOne ''user'']\<rparr>))"
    by (rule create_listing_no_seller)
next
  assume a: "(\<exists>u\<in>set (colls s ''user'').
          map_of u ''email'' = Some (VStr (ListingCreate.seller_email p)))
        \<and> 0 \<le> ListingCreate.price p
        \<and> EmailStr (ListingCreate.seller_email p) = Some se"
  then show "create_listing EmailStr (Some s) p =
            (Inr [(''id'', VStr (oid_text (next_id s)))],
             Some (s\<lparr>colls := (colls s)(''listing'' := colls s ''listing'' @
                       [stored_listing (oid_text (next_id s)) p se]),
                     next_id := Suc (next_id s),
                     accesses := accesses s @ [FindOne ''user'', InsertOne ''listing'']\<rparr>))"
    by (simp add: create_listing_ok)
next
  show "map_of (stored_listing (oid_text (next_id s)) p se) ''status'' = Some (VStr ''active'')"
    by (simp add: stored_listing_def)
next
  assume a: "(\<exists>u\<in>set (colls s ''user'').
          map_of u ''email'' = Some (VStr (ListingCreate.seller_email p)))
        \<and> 0 \<le> ListingCreate.price p
        \<and> EmailStr (ListingCreate.seller_email p) = Some se"
    and b: "(\<forall>d\<in>set (colls s ''listing'').
                  map_of d ''_id'' \<noteq> Some (VOid (oid_text (next_id s))))
              \<and> ObjectId (oid_text (next_id s)) = Some (oid_text (next_id s))"
  from a have c: "create_listing EmailStr (Some s) p =
            (Inr [(''id'', VStr (oid_text (next_id s)))],
             Some (s\<lparr>colls := (colls s)(''listing'' := colls s ''listing'' @
                       [stored_listing (oid_text (next_id s)) p se]),
                     next_id := Suc (next_id s),
                     accesses := accesses s @ [FindOne ''user'', InsertOne ''listing'']\<rparr>))"
    by (simp add: create_listing_ok)
  from b have "fst (get_listing ObjectId rf (snd (create_listing EmailStr (Some s) p))
                 (oid_text (next_id s)))
               = Inr (to_public rf (Some (stored_listing (oid_text (next_id s)) p se)))"
    unfolding c snd_conv by (intro get_new_listing) simp_all
  then show "\<exists>d. fst (get_listing ObjectId rf (snd (create_listing EmailStr (Some s) p))
                            (oid_text (next_id s))) = Inr (Some d)
                    \<and> map_of d ''title'' = Some (VStr (ListingCreate.title p))
                    \<and> map_of d ''author'' = Some (VStr (ListingCreate.author p))
                    \<and> map_of d ''price'' = Some (VFloat (ListingCreate.price p))"
    by (simp add: to_public_stored_listing)
qed

theorem create_listing_spec_witness:
  "create_listing EmailStr_simple (Some sample_store)
       ((sample_payload 9)\<lparr>ListingCreate.seller_email := ''bob@books.org''\<rparr>)
     = (Inl (HTTPException 400 ''Seller not found''),
        Some (sample_store\<lparr>accesses := [FindOne ''user'']\<rparr>))
   \<and> create_listing EmailStr_simple (Some sample_store) (sample_payload 9)
     = (Inr [(''id'', VStr ''000000000000000000000002'')],
        Some (sample_store\<lparr>colls := (colls sample_store)(''listing'' := [sample_listing,
                  stored_listing ''000000000000000000000002'' (sample_payload 9)
                    ''ann@books.org'']),
                next_id := 3,
                accesses := [FindOne ''user'', InsertOne ''listing'']\<rparr>))
   \<and> (\<exists>d. fst (get_listing ObjectId_hex repr_float_none
                 (snd (create_listing EmailStr_simple (Some sample_store) (sample_payload 9)))
                 ''000000000000000000000002'') = Inr (Some d)
          \<and> map_of d ''title'' = Some (VStr ''Emma'')
          \<and> map_of d ''author'' = Some (VStr ''Jane Austen'')
          \<and> map_of d ''price'' = Some (VFloat 9))"
proof -
  let ?bob = "(sample_payload 9)\<lparr>ListingCreate.seller_email := ''bob@books.org''\<rparr>"
  have two: "oid_text 2 = ''000000000000000000000002''"
    by code_simp
  have nxt: "next_id sample_store = 2" and acc: "accesses sample_store = []"
    and users: "colls sample_store ''user'' = [sample_user]"
    and listings: "colls sample_store ''listing'' = [sample_listing]"
    by (simp_all add: sample_store_def)
  have none: "\<forall>u\<in>set (colls sample_store ''user'').
      map_of u ''email'' \<noteq> Some (VStr (ListingCreate.seller_email ?bob))"
    by (simp add: users sample_user_def)
  have some: "\<exists>u\<in>set (colls sample_store ''user'').
      map_of u ''email'' = Some (VStr (ListingCreate.seller_email (sample_payload 9)))"
    by (simp add: users sample_user_def sample_payload_def)
  have price: "0 \<le> ListingCreate.price (sample_payload 9)"
    by (simp add: sample_payload_def)
  have email: "EmailStr_simple (ListingCreate.seller_email (sample_payload 9))
      = Some ''ann@books.org''"
    by (simp add: sample_payload_def EmailStr_simple_def)
  have fresh: "\<forall>d\<in>set (colls sample_store ''listing'').
      map_of d ''_id'' \<noteq> Some (VOid (oid_text (next_id sample_store)))"
    by (simp add: listings nxt two sample_listing_def)
  have parse: "ObjectId_hex (oid_text (next_id sample_store))
      = Some (oid_text (next_id sample_store))"
    by (simp add: nxt two ObjectId_hex_def)
  have fields: "ListingCreate.title (sample_payload 9) = ''Emma''"
    "ListingCreate.author (sample_payload 9) = ''Jane Austen''"
    "ListingCreate.price (sample_payload 9) = 9"
    by (simp_all add: sample_payload_def)
  from none create_listing_spec [of sample_store ?bob EmailStr_simple se ObjectId rf]
  have 1: "create_listing EmailStr_simple (Some sample_store) ?bob
     = (Inl (HTTPException 400 ''Seller not found''),
        Some (sample_store\<lparr>accesses := accesses sample_store @ [FindOne ''user'']\<rparr>))"
    by blast
  from some price email fresh parse
    create_listing_spec [of sample_store "sample_payload 9" EmailStr_simple "''ann@books.org''"
      ObjectId_hex repr_float_none]
  have 2: "create_listing EmailStr_simple (Some sample_store) (sample_payload 9) =
            (Inr [(''id'', VStr (oid_text (next_id sample_store)))],
             Some (sample_store\<lparr>colls := (colls sample_store)(''listing'' :=
                       colls sample_store ''listing'' @
                       [stored_listing (oid_text (next_id sample_store)) (sample_payload 9)
                          ''ann@books.org'']),
                     next_id := Suc (next_id sample_store),
                     accesses := accesses sample_store
                       @ [FindOne ''user'', InsertOne ''listing'']\<rparr>))"
    and 3: "\<exists>d. fst (get_listing ObjectId_hex repr_float_none
                 (snd (create_listing EmailStr_simple (Some sample_store) (sample_payload 9)))
                 (oid_text (next_id sample_store))) = Inr (Some d)
          \<and> map_of d ''title'' = Some (VStr (ListingCreate.title (sample_payload 9)))
          \<and> map_of d ''author'' = Some (VStr (ListingCreate.author (sample_payload 9)))
          \<and> map_of d ''price'' = Some (VFloat (ListingCreate.price (sample_payload 9)))"
    by blast+
  from 1 have r1: "create_listing EmailStr_simple (Some sample_store) ?bob
     = (Inl (HTTPException 400 ''Seller not found''),
        Some (sample_store\<lparr>accesses := [FindOne ''user'']\<rparr>))"
    by (simp add: acc)
  from 2 have r2: "create_listing EmailStr_simple (Some sample_store) (sample_payload 9)
     = (Inr [(''id'', VStr ''000000000000000000000002'')],
        Some (sample_store\<lparr>colls := (colls sample_store)(''listing'' := [sample_listing,
                  stored_listing ''000000000000000000000002'' (sample_payload 9)
                    ''ann@books.org'']),
                next_id := 3,
                accesses := [FindOne ''user'', InsertOne ''listing'']\<rparr>))"
    by (simp add: nxt acc listings two)
  from 3 have r3: "\<exists>d. fst (get_listing ObjectId_hex repr_float_none
                 (snd (create_listing EmailStr_simple (Some sample_store) (sample_payload 9)))
                 ''000000000000000000000002'') = Inr (Some d)
          \<and> map_of d ''title'' = Some (VStr ''Emma'')
          \<and> map_of d ''author'' = Some (VStr ''Jane Austen'')
          \<and> map_of d ''price'' = Some (VFloat 9)"
    by (simp only: nxt two fields)
  from r1 r2 r3 show ?thesis by (intro conjI)
qed

text \<open>
  Claim C7, as stated, fails: for a registered seller and the price \<open>-1\<close>, nothing is
  persisted and no identifier is returned; constructing the \<^verbatim>\<open>Listing\<close> raises.
\<close>

theorem create_listing_negative_price_refused:
  "create_listing EmailStr_simple (Some sample_store) (sample_payload (- 1))
     = (Inl ValidationError, Some (sample_store\<lparr>accesses := [FindOne ''user'']\<rparr>))"
proof -
  have "\<exists>u\<in>set (colls sample_store ''user'').
          map_of u ''email'' = Some (VStr (ListingCreate.seller_email (sample_payload (- 1))))"
    by (simp add: sample_store_def sample_user_def sample_payload_def)
  moreover have "ListingCreate.price (sample_payload (- 1)) < 0"
    by (simp add: sample_payload_def)
  ultimately show ?thesis
    by (simp add: create_listing_negative sample_store_def)
qed

text \<open>
  Claim C1 at the price \<open>-1\<close>. The payload class puts no bound on the price, so the
  request reaches the handler and the seller is looked up in the store first: with no
  such seller the answer is 400 (seller not found), and with the seller registered the
  bound of the \<^verbatim>\<open>Listing\<close> schema raises only after that lookup.
\<close>

theorem post_listings_negative_price:
  "post_listings EmailStr_simple (Some empty_store) ''Emma'' ''Jane Austen'' None (- 1) ''New''
       None None ''ann@books.org''
     = (Inl (HTTPException 400 ''Seller not found''),
        Some (empty_store\<lparr>accesses := [FindOne ''user'']\<rparr>))
   \<and> post_listings EmailStr_simple (Some sample_store) ''Emma'' ''Jane Austen'' None (- 1) ''New''
       None None ''ann@books.org''
     = (Inl ValidationError, Some (sample_store\<lparr>accesses := [FindOne ''user'']\<rparr>))"
proof -
  have e: "EmailStr_simple ''ann@books.org'' = Some ''ann@books.org''"
    by (simp add: EmailStr_simple_def)
  have 1: "\<forall>u\<in>set (colls empty_store ''user''). map_of u ''email'' \<noteq> Some (VStr ''ann@books.org'')"
    by (simp add: empty_store_def)
  have 2: "\<exists>u\<in>set (colls sample_store ''user''). map_of u ''email'' = Some (VStr ''ann@books.org'')"
    by (simp add: sample_store_def sample_user_def)
  show ?thesis
    using 1 2
    by (simp add: post_listings_def ListingCreate_init_def e create_listing_no_seller
          create_listing_negative empty_store_def sample_store_def)
qed

end
